theory Spec2Isabelle
  imports Complex_Main "HOL-Library.Log_Nat"
begin

section \<open>Business parameters\<close>

text \<open>
  The class \<open>FurnitureBusinessOptimization\<close> of
  \<open>task4_furniture_business_optimization.py\<close> holds three dictionaries, filled by
  \<open>__init__\<close> (lines 6-43). Each dictionary with a fixed set of string keys is a
  record; the product catalogue, whose keys are the product names, is an association
  list in insertion order (Python dictionaries iterate in insertion order). All figures
  of the source are Python integers.
\<close>

record capacity =
  wood_hours :: int
  design_hours :: int
  budget :: int

record product =
  profit_per_unit :: int
  wood_hours_per_unit :: int
  material_cost :: int
  design_complexity :: int

text \<open>
  The new-product dictionary has exactly five keys; its \<open>wood_hours_per_unit\<close>
  shares its name with the field of a product, so it is written \<open>np_wood_hours_per_unit\<close>
  here.
\<close>

record new_product =
  design_hours_required :: int
  prototype_cost :: int
  estimated_profit_per_unit :: int
  np_wood_hours_per_unit :: int
  material_cost_per_unit :: int

record FurnitureBusinessOptimization =
  manufacturing_capacity :: capacity
  products :: "(string \<times> product) list"
  new_product_design :: new_product

text \<open>The values \<open>__init__\<close> assigns.\<close>

definition init_capacity :: capacity where
  "init_capacity = \<lparr>wood_hours = 1200, design_hours = 400, budget = 150000\<rparr>"

definition init_products :: "(string \<times> product) list" where
  "init_products =
     [(''dining_table'',
         \<lparr>profit_per_unit = 350, wood_hours_per_unit = 8, material_cost = 250,
          design_complexity = 15\<rparr>),
      (''bookshelf'',
         \<lparr>profit_per_unit = 250, wood_hours_per_unit = 6, material_cost = 180,
          design_complexity = 10\<rparr>),
      (''office_chair'',
         \<lparr>profit_per_unit = 200, wood_hours_per_unit = 4, material_cost = 150,
          design_complexity = 8\<rparr>)]"

definition init_new_product :: new_product where
  "init_new_product =
     \<lparr>design_hours_required = 100, prototype_cost = 5000,
      estimated_profit_per_unit = 275, np_wood_hours_per_unit = 5,
      material_cost_per_unit = 200\<rparr>"

definition init :: FurnitureBusinessOptimization where
  "init = \<lparr>manufacturing_capacity = init_capacity, products = init_products,
            new_product_design = init_new_product\<rparr>"

section \<open>Linear programs as PuLP builds them\<close>

text \<open>
  A decision variable is a PuLP \<open>LpVariable\<close> object. The source creates one per
  product name (line 52) and two for the new product (lines 57-58); two variables are
  the same exactly when they are the same object, which the constructors express.
\<close>

datatype var = Produce string | Design_New_Product | New_Product_Units

datatype category = Integer | Binary

record lp_variable =
  var_id :: var
  var_name :: string
  lowBound :: "int option"
  cat :: category

text \<open>
  A linear expression (\<open>LpAffineExpression\<close>) is a list of terms, coefficient and
  variable, and a constant. \<open>lp_term c v\<close> is the source's \<open>c * v\<close>: PuLP
  leaves the variable out of the product when the number is 0. \<open>lp_add\<close> is the
  source's \<open>+\<close>, \<open>lp_const\<close> a number used as an expression and \<open>lp_sum\<close>
  Python's \<open>sum\<close>, which starts from 0.
\<close>

datatype expr = Expr (lp_terms: "(int \<times> var) list") (lp_constant: int)

definition lp_term :: "int \<Rightarrow> var \<Rightarrow> expr" where
  "lp_term c v = (if c = 0 then Expr [] 0 else Expr [(c, v)] 0)"

definition lp_const :: "int \<Rightarrow> expr" where
  "lp_const c = Expr [] c"

definition lp_add :: "expr \<Rightarrow> expr \<Rightarrow> expr" where
  "lp_add e f = Expr (lp_terms e @ lp_terms f) (lp_constant e + lp_constant f)"

fun lp_sum :: "expr list \<Rightarrow> expr" where
  "lp_sum [] = lp_const 0"
| "lp_sum (e # es) = lp_add e (lp_sum es)"

text \<open>A constraint \<open>lhs <= rhs\<close> with its optional name.\<close>

record lp_constraint =
  lhs :: expr
  rhs :: expr
  con_name :: "string option"

datatype sense = LpMinimize | LpMaximize

record lp_problem =
  prob_name :: string
  prob_sense :: sense
  variables :: "lp_variable list"
  objective :: expr
  constraints :: "lp_constraint list"

subsection \<open>The value of an expression and feasibility\<close>

text \<open>
  All three kinds of variable are integer valued, so an assignment gives every variable
  an integer. A \<open>Binary\<close> variable is an integer between 0 and 1; an \<open>Integer\<close>
  variable respects its lower bound, when it has one.
\<close>

type_synonym assignment = "var \<Rightarrow> int"

definition expr_value :: "assignment \<Rightarrow> expr \<Rightarrow> int" where
  "expr_value a e = (\<Sum>(c, v) \<leftarrow> lp_terms e. c * a v) + lp_constant e"

definition holds :: "assignment \<Rightarrow> lp_constraint \<Rightarrow> bool" where
  "holds a c \<longleftrightarrow> expr_value a (lhs c) \<le> expr_value a (rhs c)"

definition in_bounds :: "assignment \<Rightarrow> lp_variable \<Rightarrow> bool" where
  "in_bounds a x \<longleftrightarrow>
     (case cat x of
        Binary \<Rightarrow> 0 \<le> a (var_id x) \<and> a (var_id x) \<le> 1
      | Integer \<Rightarrow> (case lowBound x of None \<Rightarrow> True | Some l \<Rightarrow> l \<le> a (var_id x)))"

definition feasible :: "lp_problem \<Rightarrow> assignment \<Rightarrow> bool" where
  "feasible m a \<longleftrightarrow> list_all (in_bounds a) (variables m) \<and> list_all (holds a) (constraints m)"

section \<open>The model built by \<open>optimize_business_strategy\<close>\<close>

text \<open>
  Lines 47-103 of the source. \<open>for name in self.products\<close> walks the catalogue in
  order and \<open>self.products[name]\<close> is the entry of that name, so each sum runs over
  the pairs of the association list.
\<close>

definition product_vars :: "FurnitureBusinessOptimization \<Rightarrow> (string \<times> lp_variable) list" where
  "product_vars self =
     map (\<lambda>(name, p). (name, \<lparr>var_id = Produce name, var_name = ''Produce_'' @ name,
                                lowBound = Some 0, cat = Integer\<rparr>)) (products self)"

definition design_new_product :: lp_variable where
  "design_new_product =
     \<lparr>var_id = Design_New_Product, var_name = ''Design_New_Product'', lowBound = None,
      cat = Binary\<rparr>"

definition new_product_units_var :: lp_variable where
  "new_product_units_var =
     \<lparr>var_id = New_Product_Units, var_name = ''New_Product_Units'', lowBound = Some 0,
      cat = Integer\<rparr>"

definition build_objective :: "FurnitureBusinessOptimization \<Rightarrow> expr" where
  "build_objective self =
     lp_add
       (lp_sum (map (\<lambda>(name, p). lp_term (profit_per_unit p) (Produce name)) (products self)))
       (lp_add
          (lp_term (- prototype_cost (new_product_design self)) Design_New_Product)
          (lp_term (estimated_profit_per_unit (new_product_design self)) New_Product_Units))"

definition woodworking_hours_constraint :: "FurnitureBusinessOptimization \<Rightarrow> lp_constraint" where
  "woodworking_hours_constraint self =
     \<lparr>lhs = lp_add
              (lp_sum (map (\<lambda>(name, p). lp_term (wood_hours_per_unit p) (Produce name))
                         (products self)))
              (lp_term (np_wood_hours_per_unit (new_product_design self)) New_Product_Units),
      rhs = lp_const (wood_hours (manufacturing_capacity self)),
      con_name = Some ''Woodworking_Hours_Constraint''\<rparr>"

definition design_hours_constraint :: "FurnitureBusinessOptimization \<Rightarrow> lp_constraint" where
  "design_hours_constraint self =
     \<lparr>lhs = lp_add
              (lp_term (design_hours_required (new_product_design self)) Design_New_Product)
              (lp_sum (map (\<lambda>(name, p). lp_term (design_complexity p) (Produce name))
                         (products self))),
      rhs = lp_const (design_hours (manufacturing_capacity self)),
      con_name = Some ''Design_Hours_Constraint''\<rparr>"

definition budget_constraint :: "FurnitureBusinessOptimization \<Rightarrow> lp_constraint" where
  "budget_constraint self =
     \<lparr>lhs = lp_add
              (lp_add
                 (lp_sum (map (\<lambda>(name, p). lp_term (material_cost p) (Produce name))
                            (products self)))
                 (lp_term (prototype_cost (new_product_design self)) Design_New_Product))
              (lp_term (material_cost_per_unit (new_product_design self)) New_Product_Units),
      rhs = lp_const (budget (manufacturing_capacity self)),
      con_name = Some ''Budget_Constraint''\<rparr>"

text \<open>Line 103: \<open>prob += new_product_units <= 50 * design_new_product\<close>, unnamed.\<close>

definition new_product_constraint :: lp_constraint where
  "new_product_constraint =
     \<lparr>lhs = lp_term 1 New_Product_Units,
      rhs = lp_term 50 Design_New_Product,
      con_name = None\<rparr>"

definition build_model :: "FurnitureBusinessOptimization \<Rightarrow> lp_problem" where
  "build_model self =
     \<lparr>prob_name = ''Furniture_Business_Optimization'',
      prob_sense = LpMaximize,
      variables = map snd (product_vars self) @ [design_new_product, new_product_units_var],
      objective = build_objective self,
      constraints =
        [woodworking_hours_constraint self, design_hours_constraint self,
         budget_constraint self, new_product_constraint]\<rparr>"

section \<open>What the solver hands back\<close>

text \<open>
  \<open>prob.solve()\<close> (line 106) runs an external solver through PuLP. PuLP leaves
  one of its five status constants in \<open>prob.status\<close> (the integers 0, 1, -1, -2 and
  -3, in the order of the datatype below; a word of the solver that PuLP does not know
  becomes \<open>LpStatusUndefined\<close> before the source sees it) and, in each variable's
  \<open>varValue\<close>, either \<open>None\<close> or a Python float. A finite float is a rational
  number; the three other floats are kept apart because \<open>int\<close> and \<open>bool\<close>
  treat them differently.
\<close>

datatype pyfloat = Finite rat | PosInf | NegInf | NaN

datatype lp_status =
  LpStatusNotSolved | LpStatusOptimal | LpStatusInfeasible | LpStatusUnbounded
  | LpStatusUndefined

record solver_output =
  prob_status :: lp_status
  varValue :: "var \<Rightarrow> pyfloat option"

datatype error = KeyError | TypeError | ValueError | OverflowError

text \<open>
  Modelled from the spec: the table \<open>pulp.LpStatus\<close> belongs to the PuLP library and
  is not part of the repository. Its five values are the five statuses of the spec's result
  structure (PuLP spells \<open>NotSolved\<close> with a space); its keys are PuLP's status
  constants.
\<close>

definition LpStatus :: "(lp_status \<times> string) list" where
  "LpStatus =
     [(LpStatusNotSolved, ''Not Solved''), (LpStatusOptimal, ''Optimal''),
      (LpStatusInfeasible, ''Infeasible''), (LpStatusUnbounded, ''Unbounded''),
      (LpStatusUndefined, ''Undefined'')]"

text \<open>
  Python's \<open>int(x)\<close>: a finite float is truncated toward zero, \<open>None\<close> raises
  TypeError, NaN raises ValueError and an infinity raises OverflowError.
\<close>

definition py_trunc :: "rat \<Rightarrow> int" where
  "py_trunc q = (if 0 \<le> q then \<lfloor>q\<rfloor> else \<lceil>q\<rceil>)"

fun py_int :: "pyfloat option \<Rightarrow> error + int" where
  "py_int None = Inl TypeError"
| "py_int (Some (Finite q)) = Inr (py_trunc q)"
| "py_int (Some NaN) = Inl ValueError"
| "py_int (Some PosInf) = Inl OverflowError"
| "py_int (Some NegInf) = Inl OverflowError"

text \<open>The values \<open>int\<close> accepts.\<close>

fun is_finite :: "pyfloat option \<Rightarrow> bool" where
  "is_finite (Some (Finite q)) = True"
| "is_finite v = False"

text \<open>Python's truth value: \<open>None\<close> and zero are false, every other float is true.\<close>

fun py_bool :: "pyfloat option \<Rightarrow> bool" where
  "py_bool None = False"
| "py_bool (Some (Finite q)) = (q \<noteq> 0)"
| "py_bool (Some _) = True"

subsection \<open>Float arithmetic\<close>

text \<open>
  A Python float is an IEEE binary64 number, and the result of an operation is the
  exact result rounded to the nearest such number, ties going to the even mantissa.
  \<open>ilog2 q\<close> is the exponent of a positive \<open>q\<close>: the largest \<open>e\<close> with
  \<open>2^e \<le> q\<close>. The spacing of the floats around \<open>q\<close> is \<open>2^(e - 52)\<close>, and
  \<open>2^(-1074)\<close> below the normal range. A rounded result of magnitude \<open>2^1024\<close> or
  more overflows. The sign of zero is not kept.
\<close>

definition ilog2 :: "rat \<Rightarrow> int" where
  "ilog2 q = (if 1 \<le> q then bitlen \<lfloor>q\<rfloor> - 1 else - bitlen (\<lceil>1 / q\<rceil> - 1))"

definition round_half_even :: "rat \<Rightarrow> int" where
  "round_half_even x =
     (let f = \<lfloor>x\<rfloor>; d = x - of_int f
      in if d < 1 / 2 then f else if 1 / 2 < d then f + 1 else if even f then f else f + 1)"

definition nearest_double :: "rat \<Rightarrow> rat" where
  "nearest_double q =
     (if q = 0 then 0
      else let u = 2 powi (max (ilog2 \<bar>q\<bar>) (- 1022) - 52)
           in of_int (round_half_even (q / u)) * u)"

definition to_double :: "rat \<Rightarrow> pyfloat" where
  "to_double q =
     (let r = nearest_double q
      in if 2 ^ 1024 \<le> r then PosInf else if r \<le> - (2 ^ 1024) then NegInf else Finite r)"

text \<open>
  \<open>float * int\<close> first converts the integer to a float, which raises OverflowError
  when the integer is too large, and then multiplies; an overflow of the product gives
  an infinity. \<open>float + float\<close> never raises.
\<close>

definition int_to_float :: "int \<Rightarrow> error + rat" where
  "int_to_float c =
     (case to_double (of_int c) of Finite r \<Rightarrow> Inr r | _ \<Rightarrow> Inl OverflowError)"

fun float_times :: "pyfloat \<Rightarrow> rat \<Rightarrow> pyfloat" where
  "float_times (Finite q) c = to_double (q * c)"
| "float_times PosInf c = (if 0 < c then PosInf else if c < 0 then NegInf else NaN)"
| "float_times NegInf c = (if 0 < c then NegInf else if c < 0 then PosInf else NaN)"
| "float_times NaN c = NaN"

definition float_mul :: "pyfloat \<Rightarrow> int \<Rightarrow> error + pyfloat" where
  "float_mul x c = (case int_to_float c of Inl e \<Rightarrow> Inl e | Inr c' \<Rightarrow> Inr (float_times x c'))"

fun float_add :: "pyfloat \<Rightarrow> pyfloat \<Rightarrow> pyfloat" where
  "float_add (Finite p) (Finite q) = to_double (p + q)"
| "float_add NaN y = NaN"
| "float_add x NaN = NaN"
| "float_add PosInf NegInf = NaN"
| "float_add NegInf PosInf = NaN"
| "float_add PosInf y = PosInf"
| "float_add x PosInf = PosInf"
| "float_add NegInf y = NegInf"
| "float_add x NegInf = NegInf"

text \<open>
  \<open>pulp.value(prob.objective)\<close> (line 111) starts from the constant of the expression
  and adds \<open>varValue * coefficient\<close> term by term, in the order of the terms; it is
  \<open>None\<close> as soon as a variable has no value. The constant is an integer, 0 in the
  objective built here, and becomes a float with the first addition.
\<close>

fun value_terms ::
  "(var \<Rightarrow> pyfloat option) \<Rightarrow> pyfloat \<Rightarrow> (int \<times> var) list \<Rightarrow> error + pyfloat option" where
  "value_terms vals s [] = Inr (Some s)"
| "value_terms vals s ((c, v) # ts) =
     (case vals v of
        None \<Rightarrow> Inr None
      | Some x \<Rightarrow>
          (case float_mul x c of
             Inl e \<Rightarrow> Inl e
           | Inr y \<Rightarrow> value_terms vals (float_add s y) ts))"

definition lp_value :: "(var \<Rightarrow> pyfloat option) \<Rightarrow> expr \<Rightarrow> error + pyfloat option" where
  "lp_value vals e = value_terms vals (Finite (of_int (lp_constant e))) (lp_terms e)"

section \<open>The results of \<open>optimize_business_strategy\<close>\<close>

text \<open>
  Lines 108-121. The dictionary \<open>results\<close> is a record; its \<open>production_plan\<close> is
  a dictionary from product names to integers, filled by the loop of lines 118-119.
  \<open>dict_set\<close> is the assignment \<open>d[k] = v\<close>.
\<close>

record results =
  status :: string
  total_profit :: "pyfloat option"
  production_plan :: "(string \<times> int) list"
  new_product_approved :: bool
  new_product_units :: int

fun dict_set :: "'k \<Rightarrow> 'v \<Rightarrow> ('k \<times> 'v) list \<Rightarrow> ('k \<times> 'v) list" where
  "dict_set k v [] = [(k, v)]"
| "dict_set k v ((k', v') # d) = (if k = k' then (k, v) # d else (k', v') # dict_set k v d)"

fun collect_production ::
  "(var \<Rightarrow> pyfloat option) \<Rightarrow> (string \<times> lp_variable) list \<Rightarrow> (string \<times> int) list \<Rightarrow>
     error + (string \<times> int) list" where
  "collect_production vals [] plan = Inr plan"
| "collect_production vals ((name, x) # rest) plan =
     (case py_int (vals (var_id x)) of
        Inl e \<Rightarrow> Inl e
      | Inr n \<Rightarrow> collect_production vals rest (dict_set name n plan))"

text \<open>
  The entries of the dictionary literal are evaluated in the order they are written:
  the status lookup (a missing key raises KeyError), the objective value (which raises
  when a coefficient is too large for a float), the truth value of the approval
  variable, and the units, whose \<open>int\<close> is only evaluated when the approval variable
  is true. The field \<open>'new_product_design'\<close> of the results is
  written \<open>new_product_approved\<close> here, the name \<open>new_product_design\<close> being the
  parameter dictionary's.
\<close>

definition prepare_results :: "FurnitureBusinessOptimization \<Rightarrow> solver_output \<Rightarrow> error + results" where
  "prepare_results self out =
     (case map_of LpStatus (prob_status out) of
        None \<Rightarrow> Inl KeyError
      | Some st \<Rightarrow>
          (case lp_value (varValue out) (objective (build_model self)) of
             Inl e \<Rightarrow> Inl e
           | Inr profit \<Rightarrow>
               (case (if py_bool (varValue out Design_New_Product)
                      then py_int (varValue out New_Product_Units) else Inr 0) of
                  Inl e \<Rightarrow> Inl e
                | Inr units \<Rightarrow>
                    (case collect_production (varValue out) (product_vars self) [] of
                       Inl e \<Rightarrow> Inl e
                     | Inr plan \<Rightarrow>
                         Inr \<lparr>status = st,
                              total_profit = profit,
                              production_plan = plan,
                              new_product_approved = py_bool (varValue out Design_New_Product),
                              new_product_units = units\<rparr>))))"

text \<open>
  The whole method: build the model, let the solver run, prepare the results. The
  solver is a parameter.
\<close>

definition optimize_business_strategy ::
  "(lp_problem \<Rightarrow> solver_output) \<Rightarrow> FurnitureBusinessOptimization \<Rightarrow> error + results" where
  "optimize_business_strategy solve self = prepare_results self (solve (build_model self))"

section \<open>Optimal solutions and the solver's contract\<close>

text \<open>
  An assignment is optimal for a problem when it is feasible and no feasible assignment
  has a better objective value.
\<close>

definition better_or_equal :: "sense \<Rightarrow> int \<Rightarrow> int \<Rightarrow> bool" where
  "better_or_equal s x y = (case s of LpMaximize \<Rightarrow> y \<le> x | LpMinimize \<Rightarrow> x \<le> y)"

definition is_optimal :: "lp_problem \<Rightarrow> assignment \<Rightarrow> bool" where
  "is_optimal m a \<longleftrightarrow>
     feasible m a \<and>
     (\<forall>b. feasible m b \<longrightarrow>
        better_or_equal (prob_sense m) (expr_value a (objective m)) (expr_value b (objective m)))"

text \<open>
  Modelled from the spec: the solver is an external service, not part of the repository (``any
  standard solver satisfying the MILP contract''). \<open>reports st a m out\<close> says that
  the output carries the status \<open>st\<close> and, for every variable of the problem,
  the value the assignment \<open>a\<close> gives it, as a float. \<open>returns_optimum\<close> is the
  outcome on a problem the solver solves: status Optimal with an optimal assignment.
  \<open>milp_contract\<close> is the contract on one problem: whenever the problem has an
  optimal assignment, the solver returns one.
\<close>

definition reports :: "lp_status \<Rightarrow> assignment \<Rightarrow> lp_problem \<Rightarrow> solver_output \<Rightarrow> bool" where
  "reports st a m out \<longleftrightarrow>
     prob_status out = st \<and>
     list_all (\<lambda>x. varValue out (var_id x) = Some (Finite (of_int (a (var_id x))))) (variables m)"

definition returns_optimum :: "lp_problem \<Rightarrow> solver_output \<Rightarrow> bool" where
  "returns_optimum m out \<longleftrightarrow> (\<exists>a. is_optimal m a \<and> reports LpStatusOptimal a m out)"

definition milp_contract :: "lp_problem \<Rightarrow> solver_output \<Rightarrow> bool" where
  "milp_contract m out \<longleftrightarrow> ((\<exists>a. is_optimal m a) \<longrightarrow> returns_optimum m out)"

text \<open>
  The float sum of an expression under an integer assignment is exact when every
  coefficient and every value is at most \<open>2^53\<close> in magnitude and the magnitudes of
  the constant and of the products add up to at most \<open>2^53\<close>.
\<close>

definition exactly_summed :: "assignment \<Rightarrow> expr \<Rightarrow> bool" where
  "exactly_summed a e \<longleftrightarrow>
     list_all (\<lambda>(c, v). \<bar>c\<bar> \<le> 2 ^ 53 \<and> \<bar>a v\<bar> \<le> 2 ^ 53) (lp_terms e)
     \<and> \<bar>lp_constant e\<bar> + (\<Sum>(c, v) \<leftarrow> lp_terms e. \<bar>c * a v\<bar>) \<le> 2 ^ 53"

text \<open>The three keys of \<open>manufacturing_capacity\<close>, read and replaced one at a time.\<close>

datatype resource = Wood_hours | Design_hours | Budget

fun get_capacity :: "resource \<Rightarrow> capacity \<Rightarrow> int" where
  "get_capacity Wood_hours c = wood_hours c"
| "get_capacity Design_hours c = design_hours c"
| "get_capacity Budget c = budget c"

fun set_capacity :: "resource \<Rightarrow> int \<Rightarrow> capacity \<Rightarrow> capacity" where
  "set_capacity Wood_hours v c = c\<lparr>wood_hours := v\<rparr>"
| "set_capacity Design_hours v c = c\<lparr>design_hours := v\<rparr>"
| "set_capacity Budget v c = c\<lparr>budget := v\<rparr>"

definition with_capacity ::
  "resource \<Rightarrow> int \<Rightarrow> FurnitureBusinessOptimization \<Rightarrow> FurnitureBusinessOptimization" where
  "with_capacity r v self =
     self\<lparr>manufacturing_capacity := set_capacity r v (manufacturing_capacity self)\<rparr>"

section \<open>Concrete runs\<close>

text \<open>A solver that hands back one fixed output, and the output that carries an
  integer assignment exactly.\<close>

definition const_solver :: "solver_output \<Rightarrow> lp_problem \<Rightarrow> solver_output" where
  "const_solver out m = out"

definition exact_output :: "lp_status \<Rightarrow> assignment \<Rightarrow> solver_output" where
  "exact_output st a = \<lparr>prob_status = st, varValue = (\<lambda>v. Some (Finite (of_int (a v))))\<rparr>"

fun zero_plan :: assignment where
  "zero_plan v = 0"

text \<open>Thirty bookshelves and fifty units of the approved new product.\<close>

fun best_plan :: assignment where
  "best_plan (Produce name) = (if name = ''bookshelf'' then 30 else 0)"
| "best_plan Design_New_Product = 1"
| "best_plan New_Product_Units = 50"

text \<open>The same plan as a floating-point solver may return it: just below the integers.\<close>

fun near_integer_values :: "var \<Rightarrow> pyfloat option" where
  "near_integer_values (Produce name) =
     Some (Finite (if name = ''bookshelf'' then 31457279 / 1048576 else 0))"
| "near_integer_values Design_New_Product = Some (Finite 1)"
| "near_integer_values New_Product_Units = Some (Finite (52428799 / 1048576))"

definition near_integer_output :: solver_output where
  "near_integer_output = \<lparr>prob_status = LpStatusOptimal, varValue = near_integer_values\<rparr>"

text \<open>An infeasible outcome that still carries values, and an unsolved one without any.\<close>

fun leftover_values :: "var \<Rightarrow> pyfloat option" where
  "leftover_values (Produce name) = Some (Finite 3)"
| "leftover_values Design_New_Product = Some (Finite 0)"
| "leftover_values New_Product_Units = Some (Finite 7)"

definition infeasible_output :: solver_output where
  "infeasible_output = \<lparr>prob_status = LpStatusInfeasible, varValue = leftover_values\<rparr>"

fun no_values :: "var \<Rightarrow> pyfloat option" where
  "no_values v = None"

definition not_solved_output :: solver_output where
  "not_solved_output = \<lparr>prob_status = LpStatusNotSolved, varValue = no_values\<rparr>"


definition leaky_output :: solver_output where
  "leaky_output = \<lparr>prob_status = LpStatusOptimal, varValue = leftover_values\<rparr>"

text \<open>One more bookshelf, for ten more design hours.\<close>

fun more_shelves_plan :: assignment where
  "more_shelves_plan (Produce name) = (if name = ''bookshelf'' then 31 else 0)"
| "more_shelves_plan Design_New_Product = 1"
| "more_shelves_plan New_Product_Units = 50"

text \<open>A solver given by a table of problems and outputs, and the one that answers the
  default problem and the problem with 410 design hours by their best plans.\<close>

definition solver_from_table ::
  "(lp_problem \<times> solver_output) list \<Rightarrow> lp_problem \<Rightarrow> solver_output" where
  "solver_from_table tbl m = (case map_of tbl m of Some out \<Rightarrow> out | None \<Rightarrow> not_solved_output)"

definition two_runs_solver :: "lp_problem \<Rightarrow> solver_output" where
  "two_runs_solver =
     solver_from_table
       [(build_model init, exact_output LpStatusOptimal best_plan),
        (build_model (with_capacity Design_hours 410 init),
           exact_output LpStatusOptimal more_shelves_plan)]"

text \<open>A solver that answers the default problem by its best plan exactly, and the
  problem with one more unit of budget by the same plan just below the integers.\<close>

definition drifting_solver :: "lp_problem \<Rightarrow> solver_output" where
  "drifting_solver =
     solver_from_table
       [(build_model init, exact_output LpStatusOptimal best_plan),
        (build_model (with_capacity Budget 150001 init), near_integer_output)]"

text \<open>The default parameters with the budget set to 0.\<close>

definition zero_budget :: FurnitureBusinessOptimization where
  "zero_budget = with_capacity Budget 0 init"

section \<open>Properties of the model\<close>

lemma expr_value_term [simp]: "expr_value a (lp_term c v) = c * a v"
  by (simp add: expr_value_def lp_term_def)

lemma expr_value_const [simp]: "expr_value a (lp_const c) = c"
  by (simp add: expr_value_def lp_const_def)

lemma expr_value_add [simp]: "expr_value a (lp_add e f) = expr_value a e + expr_value a f"
  by (simp add: expr_value_def lp_add_def)

lemma expr_value_sum_products [simp]:
  "expr_value a (lp_sum (map (\<lambda>(name, p). lp_term (f p) (Produce name)) ps)) =
     (\<Sum>(name, p) \<leftarrow> ps. f p * a (Produce name))"
  by (induction ps) (simp_all add: case_prod_beta)

lemma lp_terms_add [simp]: "lp_terms (lp_add e f) = lp_terms e @ lp_terms f"
  by (simp add: lp_add_def)

lemma lp_terms_term: "lp_terms (lp_term c v) = (if c = 0 then [] else [(c, v)])"
  by (simp add: lp_term_def)

lemma lp_constant_add [simp]: "lp_constant (lp_add e f) = lp_constant e + lp_constant f"
  by (simp add: lp_add_def)

lemma lp_constant_term [simp]: "lp_constant (lp_term c v) = 0"
  by (simp add: lp_term_def)

lemma lp_constant_sum_terms [simp]:
  "lp_constant (lp_sum (map (\<lambda>(name, p). lp_term (f p) (Produce name)) ps)) = 0"
  by (induction ps) (simp_all add: case_prod_beta lp_const_def)

text \<open>The variables of the objective are variables of the problem: the products'
  variables, the approval variable and the units variable.\<close>

lemma lp_terms_sum_products:
  "(c, v) \<in> set (lp_terms (lp_sum (map (\<lambda>(name, p). lp_term (f p) (Produce name)) ps)))
     \<Longrightarrow> \<exists>name \<in> fst ` set ps. v = Produce name"
  by (induction ps) (auto simp: case_prod_beta lp_const_def lp_terms_term split: if_splits)

lemma objective_vars:
  assumes "(c, v) \<in> set (lp_terms (objective (build_model self)))"
  shows "(\<exists>name \<in> fst ` set (products self). v = Produce name)
           \<or> v = Design_New_Product \<or> v = New_Product_Units"
  using assms
  by (auto simp: build_model_def build_objective_def lp_terms_term
      dest: lp_terms_sum_products split: if_splits)

lemma objective_constant [simp]: "lp_constant (objective (build_model self)) = 0"
  by (simp add: build_model_def build_objective_def)

text \<open>Feasibility for the built model, spelled out constraint by constraint.\<close>

lemma feasible_build_model:
  "feasible (build_model self) a \<longleftrightarrow>
     list_all (\<lambda>(name, p). 0 \<le> a (Produce name)) (products self)
     \<and> 0 \<le> a Design_New_Product \<and> a Design_New_Product \<le> 1
     \<and> 0 \<le> a New_Product_Units
     \<and> holds a (woodworking_hours_constraint self)
     \<and> holds a (design_hours_constraint self)
     \<and> holds a (budget_constraint self)
     \<and> a New_Product_Units \<le> 50 * a Design_New_Product"
  by (auto simp: feasible_def build_model_def product_vars_def in_bounds_def list_all_iff
      design_new_product_def new_product_units_var_def new_product_constraint_def holds_def)

text \<open>The feasible region of the model built from the values of \<open>__init__\<close>.\<close>

lemma feasible_init:
  "feasible (build_model init) a \<longleftrightarrow>
     0 \<le> a (Produce ''dining_table'') \<and> 0 \<le> a (Produce ''bookshelf'')
     \<and> 0 \<le> a (Produce ''office_chair'')
     \<and> 0 \<le> a Design_New_Product \<and> a Design_New_Product \<le> 1
     \<and> 0 \<le> a New_Product_Units
     \<and> 8 * a (Produce ''dining_table'') + (6 * a (Produce ''bookshelf'')
          + 4 * a (Produce ''office_chair'')) + 5 * a New_Product_Units \<le> 1200
     \<and> 100 * a Design_New_Product + (15 * a (Produce ''dining_table'')
          + (10 * a (Produce ''bookshelf'') + 8 * a (Produce ''office_chair''))) \<le> 400
     \<and> 250 * a (Produce ''dining_table'') + (180 * a (Produce ''bookshelf'')
          + 150 * a (Produce ''office_chair'')) + 5000 * a Design_New_Product
          + 200 * a New_Product_Units \<le> 150000
     \<and> a New_Product_Units \<le> 50 * a Design_New_Product"
  by (simp add: feasible_build_model holds_def woodworking_hours_constraint_def
      design_hours_constraint_def budget_constraint_def
      init_def init_products_def init_capacity_def init_new_product_def)

subsection \<open>The gating constraint\<close>

text \<open>
  C1. In every feasible solution of the model built from any parameters, the units of
  the new product are at most 50 times the approval variable, 50 being the cap the
  model uses; so the units are zero whenever the approval variable is 0.
\<close>

theorem gating_invariant:
  "feasible (build_model self) a \<Longrightarrow>
     a New_Product_Units \<le> 50 * a Design_New_Product
     \<and> (a Design_New_Product = 0 \<longrightarrow> a New_Product_Units = 0)"
  by (auto simp: feasible_build_model)

text \<open>The plan of thirty bookshelves and fifty new units is feasible for the default
  parameters and meets the cap with equality.\<close>

theorem gating_invariant_witness:
  "feasible (build_model init) best_plan
   \<and> best_plan New_Product_Units \<le> 50 * best_plan Design_New_Product
   \<and> best_plan New_Product_Units = 50"
  using gating_invariant [of init best_plan] by (simp add: feasible_init)

text \<open>
  C10. Whatever new-product record the parameters carry, the fourth constraint of the
  model is the same one: the units variable on the left, the literal 50 times the
  approval variable on the right. No field of the record enters it.
\<close>

theorem gating_cap_literal:
  "constraints (build_model (self\<lparr>new_product_design := np\<rparr>)) ! 3 = new_product_constraint
   \<and> lhs new_product_constraint = lp_term 1 New_Product_Units
   \<and> rhs new_product_constraint = lp_term 50 Design_New_Product
   \<and> (holds a (constraints (build_model (self\<lparr>new_product_design := np\<rparr>)) ! 3)
        \<longleftrightarrow> a New_Product_Units \<le> 50 * a Design_New_Product)"
  by (simp add: build_model_def new_product_constraint_def holds_def)

subsection \<open>The objective and the budget constraint\<close>

text \<open>
  C2. For every parameter set and every assignment, the objective of the built model is
  the sum over the existing products of profit per unit times production, plus the
  estimated profit per unit times the new-product units, minus the prototype cost times
  the approval variable. So approving (the approval variable going from 0 to 1) lowers
  the objective by the prototype cost exactly once, whatever the units are, and each
  unit of the new product adds the estimated profit per unit and nothing else.
\<close>

theorem objective_value:
  "expr_value a (objective (build_model self)) =
     (\<Sum>(name, p) \<leftarrow> products self. profit_per_unit p * a (Produce name))
       + estimated_profit_per_unit (new_product_design self) * a New_Product_Units
       - prototype_cost (new_product_design self) * a Design_New_Product
   \<and> expr_value (a(Design_New_Product := 1)) (objective (build_model self))
       - expr_value (a(Design_New_Product := 0)) (objective (build_model self))
       = - prototype_cost (new_product_design self)
   \<and> expr_value (a(New_Product_Units := n)) (objective (build_model self))
       - expr_value (a(New_Product_Units := 0)) (objective (build_model self))
       = estimated_profit_per_unit (new_product_design self) * n"
  by (simp add: build_model_def build_objective_def)

text \<open>
  C3. For every parameter set, the third constraint of the built model is the budget
  constraint, and it holds exactly when the material cost of the existing products,
  plus the prototype cost times the approval variable, plus the material cost per unit
  times the new-product units, is at most the budget.
\<close>

theorem budget_constraint_value:
  "constraints (build_model self) ! 2 = budget_constraint self
   \<and> con_name (budget_constraint self) = Some ''Budget_Constraint''
   \<and> (holds a (budget_constraint self) \<longleftrightarrow>
        (\<Sum>(name, p) \<leftarrow> products self. material_cost p * a (Produce name))
          + prototype_cost (new_product_design self) * a Design_New_Product
          + material_cost_per_unit (new_product_design self) * a New_Product_Units
        \<le> budget (manufacturing_capacity self))"
  by (simp add: build_model_def budget_constraint_def holds_def)

section \<open>Properties of the float arithmetic\<close>

text \<open>The exponent is a lower bound, and a number that is an integer of at most 53
  bits times a power of two within range is a float: rounding leaves it as it is.\<close>

lemma power_int_two_le_D: "(2::rat) powi m \<le> 2 powi n \<Longrightarrow> m \<le> n"
proof (rule ccontr)
  assume le: "(2::rat) powi m \<le> 2 powi n" and "\<not> m \<le> n"
  then have "n < m" by simp
  then have "(2::rat) powi n < 2 powi m" by (rule power_int_strict_increasing) simp
  with le show False by simp
qed

lemma ilog2_le:
  assumes "0 < q"
  shows "2 powi (ilog2 q) \<le> q"
proof (cases "1 \<le> q")
  case True
  then have pos: "0 < \<lfloor>q\<rfloor>" by simp
  from bitlen_bounds [OF pos] have b: "2 ^ nat (bitlen \<lfloor>q\<rfloor> - 1) \<le> \<lfloor>q\<rfloor>" ..
  from pos have "1 \<le> bitlen \<lfloor>q\<rfloor>" by (auto simp: bitlen_alt_def)
  then have "(2::rat) powi (bitlen \<lfloor>q\<rfloor> - 1) = 2 ^ nat (bitlen \<lfloor>q\<rfloor> - 1)"
    by (simp add: power_int_def)
  also have "\<dots> = of_int (2 ^ nat (bitlen \<lfloor>q\<rfloor> - 1))" by simp
  also have "\<dots> \<le> of_int \<lfloor>q\<rfloor>" using b by (simp only: of_int_le_iff)
  also have "\<dots> \<le> q" by simp
  finally show ?thesis using True by (simp add: ilog2_def)
next
  case False
  with assms have "1 < 1 / q" by simp
  then have N: "2 \<le> \<lceil>1 / q\<rceil>" by linarith
  define M where "M = \<lceil>1 / q\<rceil> - 1"
  from N have pos: "0 < M" by (simp add: M_def)
  from bitlen_bounds [OF pos] have "M < 2 ^ nat (bitlen M)" ..
  then have "\<lceil>1 / q\<rceil> \<le> 2 ^ nat (bitlen M)" by (simp add: M_def)
  then have "(of_int \<lceil>1 / q\<rceil> :: rat) \<le> of_int (2 ^ nat (bitlen M))"
    by (simp only: of_int_le_iff)
  with le_of_int_ceiling [of "1 / q"] have "1 / q \<le> of_int (2 ^ nat (bitlen M))"
    by (rule order_trans)
  then have "1 / q \<le> 2 ^ nat (bitlen M)" by simp
  with assms have "1 / 2 ^ nat (bitlen M) \<le> q"
    by (simp add: field_simps)
  moreover have "(2::rat) powi (- bitlen M) = 1 / 2 ^ nat (bitlen M)"
    using bitlen_nonneg [of M] by (simp add: power_int_def field_simps)
  ultimately show ?thesis using False by (simp add: ilog2_def M_def)
qed

lemma round_half_even_of_int [simp]: "round_half_even (of_int j) = j"
  by (simp add: round_half_even_def)

lemma nearest_double_exact:
  assumes q: "q = of_int m * 2 powi k" and m: "\<bar>m\<bar> \<le> 2 ^ 53" and k: "- 1074 \<le> k"
  shows "nearest_double q = q"
proof (cases "m = 0")
  case True
  with q show ?thesis by (simp add: nearest_double_def)
next
  case False
  with q have q0: "q \<noteq> 0" by simp
  define x where "x = max (ilog2 \<bar>q\<bar>) (- 1022) - 52"
  have absq: "\<bar>q\<bar> = of_int \<bar>m\<bar> * 2 powi k"
    by (simp add: q abs_mult)
  from m have "(of_int \<bar>m\<bar> :: rat) \<le> of_int (2 ^ 53)" by (simp only: of_int_le_iff)
  then have "\<bar>q\<bar> \<le> 2 ^ 53 * 2 powi k"
    unfolding absq by (intro mult_right_mono) simp_all
  also have "\<dots> = 2 powi (53 + k)" by (simp add: power_int_add)
  finally have upper: "\<bar>q\<bar> \<le> 2 powi (53 + k)" .
  from q0 have "2 powi (ilog2 \<bar>q\<bar>) \<le> \<bar>q\<bar>" by (intro ilog2_le) simp
  with upper have "(2::rat) powi (ilog2 \<bar>q\<bar>) \<le> 2 powi (53 + k)" by simp
  then have e: "ilog2 \<bar>q\<bar> \<le> 53 + k" by (rule power_int_two_le_D)
  with k have x: "x \<le> k + 1" by (simp add: x_def)
  have "\<exists>j. q / 2 powi x = of_int j"
  proof (cases "x \<le> k")
    case True
    have "q / 2 powi x = of_int m * 2 powi (k - x)"
      by (simp add: q power_int_diff)
    also have "\<dots> = of_int (m * 2 ^ nat (k - x))"
      using True by (simp add: power_int_def)
    finally show ?thesis ..
  next
    case False
    with x have xk: "x = k + 1" by simp
    with k have "ilog2 \<bar>q\<bar> = 53 + k" by (simp add: x_def max_def split: if_splits)
    with \<open>2 powi (ilog2 \<bar>q\<bar>) \<le> \<bar>q\<bar>\<close> have "2 powi (53 + k) \<le> of_int \<bar>m\<bar> * (2::rat) powi k"
      by (simp add: absq)
    then have "2 ^ 53 * 2 powi k \<le> of_int \<bar>m\<bar> * (2::rat) powi k"
      by (simp add: power_int_add)
    then have "(2 ^ 53 :: rat) \<le> of_int \<bar>m\<bar>"
      by (simp add: mult_le_cancel_right)
    then have "(of_int (2 ^ 53) :: rat) \<le> of_int \<bar>m\<bar>" by simp
    then have "2 ^ 53 \<le> \<bar>m\<bar>" by (simp only: of_int_le_iff)
    with m have "\<bar>m\<bar> = 2 ^ 53" by simp
    then have "2 dvd \<bar>m\<bar>" by simp
    then have "2 dvd m" by simp
    then have "m = 2 * (m div 2)" by simp
    then have "(of_int m :: rat) = 2 * of_int (m div 2)"
      by (metis of_int_mult of_int_numeral)
    then have "q / 2 powi x = of_int (m div 2)"
      by (simp add: q xk power_int_add)
    then show ?thesis ..
  qed
  then obtain j where j: "q / 2 powi x = of_int j" ..
  then have "of_int j * 2 powi x = q" by (simp add: field_simps)
  with q0 j show ?thesis by (simp add: nearest_double_def x_def Let_def)
qed

lemma to_double_exact:
  assumes q: "q = of_int m * 2 powi k" and m: "\<bar>m\<bar> \<le> 2 ^ 53"
    and k: "- 1074 \<le> k" and k': "k \<le> 970"
  shows "to_double q = Finite q"
proof -
  have absq: "\<bar>q\<bar> = of_int \<bar>m\<bar> * 2 powi k"
    by (simp add: q abs_mult)
  from m have "(of_int \<bar>m\<bar> :: rat) \<le> of_int (2 ^ 53)" by (simp only: of_int_le_iff)
  then have "\<bar>q\<bar> \<le> 2 ^ 53 * 2 powi k"
    unfolding absq by (intro mult_right_mono) simp_all
  also have "\<dots> = 2 powi (53 + k)" by (simp add: power_int_add)
  also have "\<dots> \<le> 2 powi 1023" using k' by (intro power_int_increasing) simp_all
  also have "\<dots> < 2 powi 1024" by (intro power_int_strict_increasing) simp_all
  finally have "\<bar>q\<bar> < 2 ^ 1024" by simp
  then have "\<not> 2 ^ 1024 \<le> q" "\<not> q \<le> - (2 ^ 1024)" by linarith+
  then show ?thesis
    by (simp add: to_double_def nearest_double_exact [OF q m k])
qed

lemma to_double_of_int: "\<bar>n\<bar> \<le> 2 ^ 53 \<Longrightarrow> to_double (of_int n) = Finite (of_int n)"
  by (rule to_double_exact [where m = n and k = 0]) simp_all

text \<open>The same for numbers with at most twenty binary places, in a form that
  evaluates on numerals.\<close>

lemma to_double_dyadic:
  assumes "of_int \<lfloor>q * 2 ^ 20\<rfloor> = q * 2 ^ 20" and "\<bar>\<lfloor>q * 2 ^ 20\<rfloor>\<bar> \<le> 2 ^ 53"
  shows "to_double q = Finite q"
proof (rule to_double_exact [where m = "\<lfloor>q * 2 ^ 20\<rfloor>" and k = "- 20"])
  show "q = of_int \<lfloor>q * 2 ^ 20\<rfloor> * 2 powi (- 20)"
    unfolding assms(1) by (simp add: power_int_minus)
qed (use assms(2) in simp_all)

lemma int_to_float_exact: "\<bar>c\<bar> \<le> 2 ^ 53 \<Longrightarrow> int_to_float c = Inr (of_int c)"
  by (simp add: int_to_float_def to_double_of_int)

lemma float_mul_exact:
  assumes "\<bar>c\<bar> \<le> 2 ^ 53" and "\<bar>c * n\<bar> \<le> 2 ^ 53"
  shows "float_mul (Finite (of_int n)) c = Inr (Finite (of_int (c * n)))"
  using to_double_of_int [OF assms(2)]
  by (simp add: float_mul_def int_to_float_exact [OF assms(1)] mult.commute)

lemma float_add_exact:
  "\<bar>m + n\<bar> \<le> 2 ^ 53 \<Longrightarrow>
     float_add (Finite (of_int m)) (Finite (of_int n)) = Finite (of_int (m + n))"
  using to_double_of_int [of "m + n"] by simp



section \<open>Properties of the results\<close>

subsection \<open>Truncation and the loop over the products\<close>

lemma truncate_toward_zero:
  "\<bar>of_int (py_trunc q)\<bar> \<le> \<bar>q\<bar> \<and> \<bar>q - of_int (py_trunc q)\<bar> < 1"
proof (cases "0 \<le> q")
  case True
  then have "0 \<le> \<lfloor>q\<rfloor>" by simp
  with True show ?thesis unfolding py_trunc_def by simp linarith
next
  case False
  then have "\<lceil>q\<rceil> \<le> 0" by (simp add: ceiling_le_zero)
  with False show ?thesis unfolding py_trunc_def by simp linarith
qed

lemma truncate_of_int [simp]: "py_trunc (of_int n) = n"
  by (simp add: py_trunc_def)

lemma floor_rat_numeral [simp]:
  "\<lfloor>numeral a / numeral b :: rat\<rfloor> = numeral a div numeral b"
  using floor_divide_of_int_eq [of "numeral a" "numeral b", where ?'a = rat] by simp

lemma py_int_finite: "is_finite v \<Longrightarrow> \<exists>k. py_int v = Inr k"
  by (cases v rule: py_int.cases) auto

lemma py_int_Inr: "py_int v = Inr k \<longleftrightarrow> (\<exists>q. v = Some (Finite q) \<and> k = py_trunc q)"
  by (cases v rule: py_int.cases) auto

lemma py_int_Inl: "(\<exists>e. py_int v = Inl e) \<longleftrightarrow> \<not> is_finite v"
  by (cases v rule: py_int.cases) auto

lemma map_of_dict_set: "map_of (dict_set k v d) = (map_of d)(k \<mapsto> v)"
  by (induction d) (auto simp: fun_eq_iff)

lemma collect_production_Inr:
  "collect_production vals (map (\<lambda>(name, p). (name, mk name)) ps) plan = Inr plan' \<Longrightarrow>
     (\<forall>name \<in> fst ` set ps.
        \<exists>q. vals (var_id (mk name)) = Some (Finite q) \<and> map_of plan' name = Some (py_trunc q))
     \<and> (\<forall>name. name \<notin> fst ` set ps \<longrightarrow> map_of plan' name = map_of plan name)"
proof (induction ps arbitrary: plan)
  case Nil
  then show ?case by simp
next
  case (Cons np ps)
  obtain n p where np: "np = (n, p)" by (cases np)
  from Cons.prems obtain k where k: "py_int (vals (var_id (mk n))) = Inr k"
    and rest: "collect_production vals (map (\<lambda>(name, p). (name, mk name)) ps)
                 (dict_set n k plan) = Inr plan'"
    by (auto simp: np split: sum.splits)
  from k obtain q where q: "vals (var_id (mk n)) = Some (Finite q)" "k = py_trunc q"
    by (auto simp: py_int_Inr)
  note IH = Cons.IH [OF rest]
  show ?case
  proof (intro conjI ballI allI impI)
    fix name assume "name \<in> fst ` set (np # ps)"
    then consider "name \<in> fst ` set ps" | "name = n" "name \<notin> fst ` set ps"
      by (auto simp: np)
    then show "\<exists>q. vals (var_id (mk name)) = Some (Finite q) \<and> map_of plan' name = Some (py_trunc q)"
    proof cases
      case 1
      with IH show ?thesis by blast
    next
      case 2
      with IH have "map_of plan' name = map_of (dict_set n k plan) name" by blast
      with 2 q show ?thesis by (simp add: map_of_dict_set)
    qed
  next
    fix name assume "name \<notin> fst ` set (np # ps)"
    then have "name \<notin> fst ` set ps" "name \<noteq> n" by (auto simp: np)
    with IH show "map_of plan' name = map_of plan name"
      by (simp add: map_of_dict_set)
  qed
qed

lemma collect_production_total:
  "(\<forall>name \<in> fst ` set ps. is_finite (vals (var_id (mk name)))) \<Longrightarrow>
     \<exists>plan'. collect_production vals (map (\<lambda>(name, p). (name, mk name)) ps) plan = Inr plan'"
proof (induction ps arbitrary: plan)
  case Nil
  then show ?case by simp
next
  case (Cons np ps)
  obtain n p where np: "np = (n, p)" by (cases np)
  from Cons.prems have "is_finite (vals (var_id (mk n)))" by (simp add: np)
  then obtain k where "py_int (vals (var_id (mk n))) = Inr k"
    using py_int_Inl [of "vals (var_id (mk n))"] by (cases "py_int (vals (var_id (mk n)))") auto
  moreover from Cons.prems have "\<forall>name \<in> fst ` set ps. is_finite (vals (var_id (mk name)))"
    by simp
  ultimately show ?case using Cons.IH by (simp add: np)
qed

lemma collect_production_fails:
  "\<exists>name \<in> fst ` set ps. \<not> is_finite (vals (var_id (mk name))) \<Longrightarrow>
     \<exists>e. collect_production vals (map (\<lambda>(name, p). (name, mk name)) ps) plan = Inl e"
proof (induction ps arbitrary: plan)
  case Nil
  then show ?case by simp
next
  case (Cons np ps)
  obtain n p where np: "np = (n, p)" by (cases np)
  show ?case
  proof (cases "py_int (vals (var_id (mk n)))")
    case (Inl e)
    then show ?thesis by (simp add: np)
  next
    case (Inr k)
    then have "is_finite (vals (var_id (mk n)))"
      using py_int_Inl [of "vals (var_id (mk n))"] by auto
    with Cons.prems have "\<exists>name \<in> fst ` set ps. \<not> is_finite (vals (var_id (mk name)))"
      by (auto simp: np)
    from Cons.IH [OF this] Inr show ?thesis by (simp add: np)
  qed
qed



lemma product_vars_shape:
  "product_vars self =
     map (\<lambda>(name, p). (name, \<lparr>var_id = Produce name, var_name = ''Produce_'' @ name,
                                lowBound = Some 0, cat = Integer\<rparr>)) (products self)"
  by (simp add: product_vars_def)

text \<open>What a returned result says about the steps that produced it.\<close>

lemma prepare_results_Inr:
  assumes "prepare_results self out = Inr r"
  shows "map_of LpStatus (prob_status out) = Some (status r)"
    and "new_product_approved r = py_bool (varValue out Design_New_Product)"
    and "(if py_bool (varValue out Design_New_Product)
          then py_int (varValue out New_Product_Units) else Inr 0) = Inr (new_product_units r)"
    and "collect_production (varValue out) (product_vars self) [] = Inr (production_plan r)"
    and "lp_value (varValue out) (objective (build_model self)) = Inr (total_profit r)"
  using assms
  by (auto simp: prepare_results_def split: option.splits sum.splits if_splits)

text \<open>The status table has an entry for each of the five statuses.\<close>

lemma LpStatus_total: "\<exists>st. map_of LpStatus s = Some st"
  by (cases s) (simp_all add: LpStatus_def)


text \<open>Results are returned exactly when none of the three steps that can raise does.\<close>

lemma prepare_results_returns:
  "(\<exists>r. prepare_results self out = Inr r) \<longleftrightarrow>
     \<not> isl (lp_value (varValue out) (objective (build_model self)))
     \<and> (py_bool (varValue out Design_New_Product) \<longrightarrow>
          \<not> isl (py_int (varValue out New_Product_Units)))
     \<and> \<not> isl (collect_production (varValue out) (product_vars self) [])"
  using LpStatus_total [of "prob_status out"]
  by (auto simp: prepare_results_def split: option.splits sum.splits)


subsection \<open>What the results hold\<close>

text \<open>
  C4 (as amended). Whenever results are returned, each quantity of the production plan
  and, when the product is approved, the units of the new product are Python's \<open>int\<close>
  of the raw value: the value truncated toward zero, never larger in magnitude than the
  raw value and less than one away from it. It is not rounded to the nearest integer.
\<close>

theorem results_truncate:
  assumes "optimize_business_strategy solve self = Inr r"
  shows "(\<forall>name \<in> fst ` set (products self).
            \<exists>q. varValue (solve (build_model self)) (Produce name) = Some (Finite q)
               \<and> map_of (production_plan r) name = Some (py_trunc q)
               \<and> \<bar>of_int (py_trunc q)\<bar> \<le> \<bar>q\<bar> \<and> \<bar>q - of_int (py_trunc q)\<bar> < 1)
       \<and> (new_product_approved r \<longrightarrow>
            (\<exists>q. varValue (solve (build_model self)) New_Product_Units = Some (Finite q)
               \<and> new_product_units r = py_trunc q
               \<and> \<bar>of_int (py_trunc q)\<bar> \<le> \<bar>q\<bar> \<and> \<bar>q - of_int (py_trunc q)\<bar> < 1))"
proof -
  let ?out = "solve (build_model self)"
  from assms have r: "prepare_results self ?out = Inr r"
    by (simp add: optimize_business_strategy_def)
  have "collect_production (varValue ?out)
          (map (\<lambda>(name, p). (name, \<lparr>var_id = Produce name, var_name = ''Produce_'' @ name,
                                lowBound = Some 0, cat = Integer\<rparr>)) (products self)) []
        = Inr (production_plan r)"
    using prepare_results_Inr(4) [OF r] by (simp add: product_vars_shape)
  from collect_production_Inr [OF this]
  have plan: "\<forall>name \<in> fst ` set (products self).
            \<exists>q. varValue ?out (Produce name) = Some (Finite q)
               \<and> map_of (production_plan r) name = Some (py_trunc q)"
    by simp
  have units: "\<exists>q. varValue ?out New_Product_Units = Some (Finite q)
               \<and> new_product_units r = py_trunc q" if "new_product_approved r"
    using prepare_results_Inr(2,3) [OF r] that by (simp add: py_int_Inr)
  from plan units show ?thesis
    using truncate_toward_zero by blast
qed


subsection \<open>Concrete runs, evaluated\<close>

lemmas run_defs =
  optimize_business_strategy_def const_solver_def prepare_results_def LpStatus_def
  product_vars_def init_def init_products_def init_new_product_def
  py_trunc_def build_model_def build_objective_def lp_value_def lp_add_def lp_term_def
  lp_const_def float_mul_def int_to_float_def to_double_dyadic

lemma run_near_integer:
  "optimize_business_strategy (const_solver near_integer_output) init =
     Inr \<lparr>status = ''Optimal'', total_profit = Some (Finite (17039359475 / 1048576)),
          production_plan = [(''dining_table'', 0), (''bookshelf'', 29), (''office_chair'', 0)],
          new_product_approved = True, new_product_units = 49\<rparr>"
  by (simp add: run_defs near_integer_output_def)

lemma run_infeasible:
  "optimize_business_strategy (const_solver infeasible_output) init =
     Inr \<lparr>status = ''Infeasible'', total_profit = Some (Finite 4325),
          production_plan = [(''dining_table'', 3), (''bookshelf'', 3), (''office_chair'', 3)],
          new_product_approved = False, new_product_units = 0\<rparr>"
  by (simp add: run_defs infeasible_output_def)

lemma run_not_solved:
  "optimize_business_strategy (const_solver not_solved_output) init = Inl TypeError"
  by (simp add: run_defs not_solved_output_def)


lemma run_leaky:
  "optimize_business_strategy (const_solver leaky_output) init =
     Inr \<lparr>status = ''Optimal'', total_profit = Some (Finite 4325),
          production_plan = [(''dining_table'', 3), (''bookshelf'', 3), (''office_chair'', 3)],
          new_product_approved = False, new_product_units = 0\<rparr>"
  by (simp add: run_defs leaky_output_def)

text \<open>A run on values just below 30 and 50: the plan holds 29 and 49.\<close>

theorem results_truncate_witness:
  "optimize_business_strategy (const_solver near_integer_output) init =
     Inr \<lparr>status = ''Optimal'', total_profit = Some (Finite (17039359475 / 1048576)),
          production_plan = [(''dining_table'', 0), (''bookshelf'', 29), (''office_chair'', 0)],
          new_product_approved = True, new_product_units = 49\<rparr>
   \<and> py_trunc (31457279 / 1048576) = 29 \<and> py_trunc (52428799 / 1048576) = 49"
  using results_truncate [OF run_near_integer] run_near_integer
  by (simp add: py_trunc_def)

text \<open>
  C4 as stated fails: the raw values \<open>30 - 2^-20\<close> and \<open>50 - 2^-20\<close>, whose nearest
  integers are 30 and 50, are stored as 29 and 49.
\<close>

theorem rounding_counterexample:
  "optimize_business_strategy (const_solver near_integer_output) init =
     Inr \<lparr>status = ''Optimal'', total_profit = Some (Finite (17039359475 / 1048576)),
          production_plan = [(''dining_table'', 0), (''bookshelf'', 29), (''office_chair'', 0)],
          new_product_approved = True, new_product_units = 49\<rparr>
   \<and> varValue near_integer_output (Produce ''bookshelf'') = Some (Finite (31457279 / 1048576))
   \<and> round (31457279 / 1048576 :: rat) = 30
   \<and> varValue near_integer_output New_Product_Units = Some (Finite (52428799 / 1048576))
   \<and> round (52428799 / 1048576 :: rat) = 50"
  using run_near_integer by (simp add: near_integer_output_def round_def)

text \<open>The loop over the products succeeds exactly when every product has a finite
  value, and \<open>int\<close> exactly on a finite value.\<close>

lemma isl_py_int: "isl (py_int v) \<longleftrightarrow> \<not> is_finite v"
  by (cases v rule: py_int.cases) auto

lemma isl_collect_products:
  "isl (collect_production vals (product_vars self) []) \<longleftrightarrow>
     (\<exists>name \<in> fst ` set (products self). \<not> is_finite (vals (Produce name)))"
proof
  let ?mk = "\<lambda>name. \<lparr>var_id = Produce name, var_name = ''Produce_'' @ name,
                       lowBound = Some 0, cat = Integer\<rparr>"
  have pv: "product_vars self = map (\<lambda>(name, p). (name, ?mk name)) (products self)"
    by (simp add: product_vars_def)
  {
    assume "isl (collect_production vals (product_vars self) [])"
    show "\<exists>name \<in> fst ` set (products self). \<not> is_finite (vals (Produce name))"
    proof (rule ccontr)
      assume "\<not> ?thesis"
      then have "\<forall>name \<in> fst ` set (products self). is_finite (vals (var_id (?mk name)))"
        by simp
      from collect_production_total [OF this]
      have "\<not> isl (collect_production vals (product_vars self) [])"
        unfolding pv by (metis sum.disc(2))
      with \<open>isl (collect_production vals (product_vars self) [])\<close> show False by simp
    qed
  next
    assume "\<exists>name \<in> fst ` set (products self). \<not> is_finite (vals (Produce name))"
    then have "\<exists>name \<in> fst ` set (products self). \<not> is_finite (vals (var_id (?mk name)))"
      by simp
    from collect_production_fails [OF this]
    show "isl (collect_production vals (product_vars self) [])"
      unfolding pv by (metis sum.disc(1))
  }
qed

text \<open>
  C5 (as amended). Whatever status the solver ends with, the production plan is filled
  from the raw values and no quantity is replaced by 0. Whenever results are returned,
  their status is the table's entry for the solver's status, Optimal or not, and each
  quantity of the plan is \<open>int\<close> of the product's raw value. Results are returned
  exactly when the objective value can be computed (no coefficient is too large for a
  float), every product's raw value is a finite float, and the units' raw value is a
  finite float or the approval value is false; in every other case the call raises.
\<close>

theorem plan_regardless_of_status:
  "(optimize_business_strategy solve self = Inr r \<longrightarrow>
      map_of LpStatus (prob_status (solve (build_model self))) = Some (status r)
      \<and> (\<forall>name \<in> fst ` set (products self).
            \<exists>q. varValue (solve (build_model self)) (Produce name) = Some (Finite q)
               \<and> map_of (production_plan r) name = Some (py_trunc q)))
   \<and> ((\<exists>r'. optimize_business_strategy solve self = Inr r') \<longleftrightarrow>
        \<not> isl (lp_value (varValue (solve (build_model self))) (objective (build_model self)))
        \<and> (\<forall>name \<in> fst ` set (products self).
              is_finite (varValue (solve (build_model self)) (Produce name)))
        \<and> (py_bool (varValue (solve (build_model self)) Design_New_Product) \<longrightarrow>
              is_finite (varValue (solve (build_model self)) New_Product_Units)))"
proof (intro conjI impI)
  let ?out = "solve (build_model self)"
  assume "optimize_business_strategy solve self = Inr r"
  then have r: "prepare_results self ?out = Inr r"
    by (simp add: optimize_business_strategy_def)
  from prepare_results_Inr(1) [OF r]
  show "map_of LpStatus (prob_status ?out) = Some (status r)" .
  have "collect_production (varValue ?out)
          (map (\<lambda>(name, p). (name, \<lparr>var_id = Produce name, var_name = ''Produce_'' @ name,
                                lowBound = Some 0, cat = Integer\<rparr>)) (products self)) []
        = Inr (production_plan r)"
    using prepare_results_Inr(4) [OF r] by (simp add: product_vars_shape)
  from collect_production_Inr [OF this]
  show "\<forall>name \<in> fst ` set (products self).
            \<exists>q. varValue ?out (Produce name) = Some (Finite q)
               \<and> map_of (production_plan r) name = Some (py_trunc q)"
    by simp
next
  show "(\<exists>r'. optimize_business_strategy solve self = Inr r') \<longleftrightarrow>
        \<not> isl (lp_value (varValue (solve (build_model self))) (objective (build_model self)))
        \<and> (\<forall>name \<in> fst ` set (products self).
              is_finite (varValue (solve (build_model self)) (Produce name)))
        \<and> (py_bool (varValue (solve (build_model self)) Design_New_Product) \<longrightarrow>
              is_finite (varValue (solve (build_model self)) New_Product_Units))"
    unfolding optimize_business_strategy_def prepare_results_returns isl_py_int
      isl_collect_products
    by blast
qed

text \<open>An infeasible outcome with values keeps them, under the status Infeasible; an
  unsolved one without values raises.\<close>

theorem plan_regardless_of_status_witness:
  "optimize_business_strategy (const_solver infeasible_output) init =
     Inr \<lparr>status = ''Infeasible'', total_profit = Some (Finite 4325),
          production_plan = [(''dining_table'', 3), (''bookshelf'', 3), (''office_chair'', 3)],
          new_product_approved = False, new_product_units = 0\<rparr>
   \<and> map_of LpStatus (prob_status (const_solver infeasible_output (build_model init)))
       = Some ''Infeasible''
   \<and> is_finite (varValue (const_solver infeasible_output (build_model init))
                  (Produce ''dining_table''))
   \<and> optimize_business_strategy (const_solver not_solved_output) init = Inl TypeError"
  using plan_regardless_of_status [of "const_solver infeasible_output" init, THEN conjunct1,
      rule_format, OF run_infeasible]
    plan_regardless_of_status [of "const_solver infeasible_output" init, THEN conjunct2]
    run_infeasible run_not_solved
  by (simp add: init_def init_products_def)

text \<open>
  C5 as stated fails: with status Infeasible and raw values 3 the plan holds 3 for every
  product, and with status Not Solved and no values the call raises TypeError.
\<close>

theorem zero_substitution_counterexample:
  "prob_status infeasible_output \<noteq> LpStatusOptimal
   \<and> optimize_business_strategy (const_solver infeasible_output) init =
     Inr \<lparr>status = ''Infeasible'', total_profit = Some (Finite 4325),
          production_plan = [(''dining_table'', 3), (''bookshelf'', 3), (''office_chair'', 3)],
          new_product_approved = False, new_product_units = 0\<rparr>
   \<and> prob_status not_solved_output \<noteq> LpStatusOptimal
   \<and> varValue not_solved_output (Produce ''dining_table'') = None
   \<and> optimize_business_strategy (const_solver not_solved_output) init = Inl TypeError"
  using run_infeasible run_not_solved
  by (simp add: infeasible_output_def not_solved_output_def)



text \<open>
  C7. Whenever results are returned and the new product is not approved, the reported
  units of the new product are 0, whatever raw value the solver left in the units
  variable.
\<close>

theorem units_zero_unless_approved:
  "optimize_business_strategy solve self = Inr r \<Longrightarrow> \<not> new_product_approved r \<Longrightarrow>
     new_product_units r = 0"
  using prepare_results_Inr(2,3) [of self "solve (build_model self)" r]
  by (simp add: optimize_business_strategy_def)

text \<open>The raw units are 7 and the approval variable is 0: the results report 0 units.\<close>

theorem units_zero_unless_approved_witness:
  "varValue leaky_output New_Product_Units = Some (Finite 7)
   \<and> varValue leaky_output Design_New_Product = Some (Finite 0)
   \<and> optimize_business_strategy (const_solver leaky_output) init =
     Inr \<lparr>status = ''Optimal'', total_profit = Some (Finite 4325),
          production_plan = [(''dining_table'', 3), (''bookshelf'', 3), (''office_chair'', 3)],
          new_product_approved = False, new_product_units = 0\<rparr>"
  using units_zero_unless_approved [OF run_leaky] run_leaky
  by (simp add: leaky_output_def)

section \<open>Optimal runs\<close>

subsection \<open>Results of an output that carries an assignment exactly\<close>

lemma sum_list_abs_nonneg: "0 \<le> (\<Sum>(c, v) \<leftarrow> ts. \<bar>c * (a v :: int)\<bar>)"
  by (induction ts) (auto simp: case_prod_beta)

text \<open>Within the bounds every product and every partial sum is an integer of at most
  53 bits, so no step of the float sum rounds.\<close>

lemma value_terms_exact:
  assumes "\<forall>(c, v) \<in> set ts. vals v = Some (Finite (of_int (a v)))"
    and "\<forall>(c, v) \<in> set ts. \<bar>c\<bar> \<le> 2 ^ 53"
    and "\<bar>s\<bar> + (\<Sum>(c, v) \<leftarrow> ts. \<bar>c * a v\<bar>) \<le> 2 ^ 53"
  shows "value_terms vals (Finite (of_int s)) ts =
           Inr (Some (Finite (of_int (s + (\<Sum>(c, v) \<leftarrow> ts. c * a v)))))"
  using assms
proof (induction ts arbitrary: s)
  case Nil
  then show ?case by simp
next
  case (Cons t ts)
  obtain c v where t: "t = (c, v)" by (cases t)
  from Cons.prems(1) have v: "vals v = Some (Finite (of_int (a v)))"
    and vals: "\<forall>(c, v) \<in> set ts. vals v = Some (Finite (of_int (a v)))"
    by (auto simp: t)
  from Cons.prems(2) have c: "\<bar>c\<bar> \<le> 2 ^ 53" and cs: "\<forall>(c, v) \<in> set ts. \<bar>c\<bar> \<le> 2 ^ 53"
    by (auto simp: t)
  from Cons.prems(3)
  have total: "\<bar>s\<bar> + (\<bar>c * a v\<bar> + (\<Sum>(c, v) \<leftarrow> ts. \<bar>c * a v\<bar>)) \<le> 2 ^ 53"
    by (simp add: t)
  note rest = sum_list_abs_nonneg [where ts = ts and a = a]
  from total rest have prod: "\<bar>c * a v\<bar> \<le> 2 ^ 53" by linarith
  from total rest have sum: "\<bar>s + c * a v\<bar> \<le> 2 ^ 53" by linarith
  from total have next_total:
    "\<bar>s + c * a v\<bar> + (\<Sum>(c, v) \<leftarrow> ts. \<bar>c * a v\<bar>) \<le> 2 ^ 53"
    by linarith
  have mul: "float_mul (Finite (of_int (a v))) c = Inr (Finite (of_int (c * a v)))"
    by (rule float_mul_exact [OF c prod])
  have add: "float_add (Finite (of_int s)) (Finite (of_int (c * a v))) =
               Finite (of_int (s + c * a v))"
    by (rule float_add_exact [OF sum])
  have "value_terms vals (Finite (of_int s)) (t # ts) =
          value_terms vals (Finite (of_int (s + c * a v))) ts"
    unfolding t by (simp only: value_terms.simps v option.case mul sum.case add)
  also have "\<dots> = Inr (Some (Finite (of_int (s + c * a v + (\<Sum>(c, v) \<leftarrow> ts. c * a v)))))"
    by (rule Cons.IH [OF vals cs next_total])
  finally show ?case by (simp add: t add.assoc)
qed

lemma reports_build_model:
  "reports st a (build_model self) out \<longleftrightarrow>
     prob_status out = st
     \<and> (\<forall>name \<in> fst ` set (products self).
            varValue out (Produce name) = Some (Finite (of_int (a (Produce name)))))
     \<and> varValue out Design_New_Product = Some (Finite (of_int (a Design_New_Product)))
     \<and> varValue out New_Product_Units = Some (Finite (of_int (a New_Product_Units)))"
  by (auto simp: reports_def build_model_def product_vars_def list_all_iff
      design_new_product_def new_product_units_var_def)

lemma lp_value_reports:
  assumes "reports st a (build_model self) out"
    and "exactly_summed a (objective (build_model self))"
  shows "lp_value (varValue out) (objective (build_model self)) =
           Inr (Some (Finite (of_int (expr_value a (objective (build_model self))))))"
proof -
  let ?e = "objective (build_model self)"
  from assms(1) have vals:
    "\<forall>name \<in> fst ` set (products self).
        varValue out (Produce name) = Some (Finite (of_int (a (Produce name))))"
    "varValue out Design_New_Product = Some (Finite (of_int (a Design_New_Product)))"
    "varValue out New_Product_Units = Some (Finite (of_int (a New_Product_Units)))"
    by (simp_all add: reports_build_model)
  have 1: "\<forall>(c, v) \<in> set (lp_terms ?e). varValue out v = Some (Finite (of_int (a v)))"
    using vals objective_vars [of _ _ self] by fastforce
  from assms(2) have 2: "\<forall>(c, v) \<in> set (lp_terms ?e). \<bar>c\<bar> \<le> 2 ^ 53"
    by (auto simp: exactly_summed_def list_all_iff)
  from assms(2) have 3: "\<bar>0\<bar> + (\<Sum>(c, v) \<leftarrow> lp_terms ?e. \<bar>c * a v\<bar>) \<le> 2 ^ 53"
    by (simp add: exactly_summed_def)
  from value_terms_exact [OF 1 2 3] show ?thesis
    by (simp add: lp_value_def expr_value_def)
qed

lemma prepare_results_reports:
  assumes rep: "reports st a (build_model self) out" and st: "map_of LpStatus st = Some s"
    and exact: "exactly_summed a (objective (build_model self))"
  shows "\<exists>r. prepare_results self out = Inr r \<and> status r = s
           \<and> total_profit r = Some (Finite (of_int (expr_value a (objective (build_model self)))))"
proof -
  let ?mk = "\<lambda>name. \<lparr>var_id = Produce name, var_name = ''Produce_'' @ name,
                       lowBound = Some 0, cat = Integer\<rparr>"
  have pv: "product_vars self = map (\<lambda>(name, p). (name, ?mk name)) (products self)"
    by (simp add: product_vars_def)
  from rep have "\<forall>name \<in> fst ` set (products self). is_finite (varValue out (var_id (?mk name)))"
    by (simp add: reports_build_model)
  from collect_production_total [OF this]
  obtain plan where plan: "collect_production (varValue out) (product_vars self) [] = Inr plan"
    unfolding pv by blast
  from rep have "prob_status out = st"
    and "varValue out New_Product_Units = Some (Finite (of_int (a New_Product_Units)))"
    by (simp_all add: reports_build_model)
  with st plan lp_value_reports [OF rep exact] show ?thesis
    by (simp add: prepare_results_def)
qed

subsection \<open>Changing one capacity\<close>

lemma products_with_capacity [simp]: "products (with_capacity r v self) = products self"
  by (simp add: with_capacity_def)

lemma objective_with_capacity [simp]:
  "objective (build_model (with_capacity r v self)) = objective (build_model self)"
  by (simp add: with_capacity_def build_model_def build_objective_def)

lemma sense_build_model [simp]: "prob_sense (build_model self) = LpMaximize"
  by (simp add: build_model_def)

lemma feasible_with_capacity:
  assumes "feasible (build_model self) a" and "get_capacity r (manufacturing_capacity self) \<le> v"
  shows "feasible (build_model (with_capacity r v self)) a"
  using assms
  by (cases r)
     (simp_all add: feasible_build_model holds_def woodworking_hours_constraint_def
        design_hours_constraint_def budget_constraint_def with_capacity_def)

text \<open>
  C8 (as amended). Take any parameters, any one of the three capacities and any value at
  least as large as the present one. An assignment that is optimal for the model built
  after the change has an objective value at least that of an assignment optimal for
  the model built before it. The reported total profit is that objective value, so it
  does not decrease either, whenever the solver reports the optimal assignment with
  status Optimal as exact integers and the float sum of the objective is exact.
\<close>

theorem optimum_monotone_in_capacity:
  assumes cap: "get_capacity r (manufacturing_capacity self) \<le> v"
    and opt: "is_optimal (build_model self) a"
    and opt': "is_optimal (build_model (with_capacity r v self)) a'"
  shows "expr_value a (objective (build_model self))
           \<le> expr_value a' (objective (build_model (with_capacity r v self)))
       \<and> (reports LpStatusOptimal a (build_model self) (solve (build_model self)) \<longrightarrow>
          exactly_summed a (objective (build_model self)) \<longrightarrow>
            (\<exists>res. optimize_business_strategy solve self = Inr res \<and> status res = ''Optimal''
               \<and> total_profit res =
                   Some (Finite (of_int (expr_value a (objective (build_model self)))))))
       \<and> (reports LpStatusOptimal a' (build_model (with_capacity r v self))
            (solve (build_model (with_capacity r v self))) \<longrightarrow>
          exactly_summed a' (objective (build_model (with_capacity r v self))) \<longrightarrow>
            (\<exists>res'. optimize_business_strategy solve (with_capacity r v self) = Inr res'
               \<and> status res' = ''Optimal''
               \<and> total_profit res' =
                   Some (Finite (of_int (expr_value a'
                                           (objective (build_model (with_capacity r v self))))))))"
proof (intro conjI impI)
  have st: "map_of LpStatus LpStatusOptimal = Some ''Optimal''"
    by (simp add: LpStatus_def)
  from opt have "feasible (build_model self) a" by (simp add: is_optimal_def)
  from feasible_with_capacity [OF this cap] opt'
  show "expr_value a (objective (build_model self))
          \<le> expr_value a' (objective (build_model (with_capacity r v self)))"
    by (auto simp: is_optimal_def better_or_equal_def)
  {
    fix self' :: FurnitureBusinessOptimization and b
    assume "reports LpStatusOptimal b (build_model self') (solve (build_model self'))"
      and "exactly_summed b (objective (build_model self'))"
    from prepare_results_reports [OF this(1) st this(2)]
    have "\<exists>res. optimize_business_strategy solve self' = Inr res \<and> status res = ''Optimal''
               \<and> total_profit res =
                   Some (Finite (of_int (expr_value b (objective (build_model self')))))"
      by (simp add: optimize_business_strategy_def)
  }
  note run = this
  show "\<exists>res. optimize_business_strategy solve self = Inr res \<and> status res = ''Optimal''
               \<and> total_profit res =
                   Some (Finite (of_int (expr_value a (objective (build_model self)))))"
    if "reports LpStatusOptimal a (build_model self) (solve (build_model self))"
      and "exactly_summed a (objective (build_model self))"
    using that by (rule run)
  show "\<exists>res'. optimize_business_strategy solve (with_capacity r v self) = Inr res'
               \<and> status res' = ''Optimal''
               \<and> total_profit res' =
                   Some (Finite (of_int (expr_value a'
                                           (objective (build_model (with_capacity r v self))))))"
    if "reports LpStatusOptimal a' (build_model (with_capacity r v self))
            (solve (build_model (with_capacity r v self)))"
      and "exactly_summed a' (objective (build_model (with_capacity r v self)))"
    using that by (rule run)
qed

subsection \<open>The default parameters, with more design hours and with more budget\<close>

lemma feasible_init_capacity:
  "feasible (build_model (init\<lparr>manufacturing_capacity := cap\<rparr>)) a \<longleftrightarrow>
     0 \<le> a (Produce ''dining_table'') \<and> 0 \<le> a (Produce ''bookshelf'')
     \<and> 0 \<le> a (Produce ''office_chair'')
     \<and> 0 \<le> a Design_New_Product \<and> a Design_New_Product \<le> 1
     \<and> 0 \<le> a New_Product_Units
     \<and> 8 * a (Produce ''dining_table'') + (6 * a (Produce ''bookshelf'')
          + 4 * a (Produce ''office_chair'')) + 5 * a New_Product_Units \<le> wood_hours cap
     \<and> 100 * a Design_New_Product + (15 * a (Produce ''dining_table'')
          + (10 * a (Produce ''bookshelf'') + 8 * a (Produce ''office_chair'')))
          \<le> design_hours cap
     \<and> 250 * a (Produce ''dining_table'') + (180 * a (Produce ''bookshelf'')
          + 150 * a (Produce ''office_chair'')) + 5000 * a Design_New_Product
          + 200 * a New_Product_Units \<le> budget cap
     \<and> a New_Product_Units \<le> 50 * a Design_New_Product"
  by (simp add: feasible_build_model holds_def woodworking_hours_constraint_def
      design_hours_constraint_def budget_constraint_def
      init_def init_products_def init_new_product_def)

lemma with_capacity_init:
  "with_capacity r v init = init\<lparr>manufacturing_capacity := set_capacity r v init_capacity\<rparr>"
  by (simp add: with_capacity_def init_def)

lemma objective_init_capacity [simp]:
  "objective (build_model (init\<lparr>manufacturing_capacity := cap\<rparr>)) = objective (build_model init)"
  by (simp add: build_model_def build_objective_def init_def)

lemma objective_init:
  "expr_value a (objective (build_model init)) =
     350 * a (Produce ''dining_table'') + (250 * a (Produce ''bookshelf'')
       + 200 * a (Produce ''office_chair'')) + (- (5000 * a Design_New_Product)
       + 275 * a New_Product_Units)"
  by (simp add: build_model_def build_objective_def init_def init_products_def
      init_new_product_def)

text \<open>
  With 400 design hours the best plan is worth 16250: 25 times the design-hours
  constraint, 275 times the gating constraint and the bounds of the variables bound the
  objective by \<open>10000 + 6250 * approval\<close>. This holds whatever the other two
  capacities are, as long as the plan fits them.
\<close>

lemma optimal_best_plan:
  assumes "430 \<le> wood_hours cap" and "design_hours cap = 400" and "20400 \<le> budget cap"
  shows "is_optimal (build_model (init\<lparr>manufacturing_capacity := cap\<rparr>)) best_plan"
  unfolding is_optimal_def
proof (intro conjI allI impI)
  show "feasible (build_model (init\<lparr>manufacturing_capacity := cap\<rparr>)) best_plan"
    using assms by (simp add: feasible_init_capacity)
next
  fix b assume "feasible (build_model (init\<lparr>manufacturing_capacity := cap\<rparr>)) b"
  then have "expr_value b (objective (build_model init)) \<le> 16250"
    unfolding feasible_init_capacity objective_init assms(2) by linarith
  then show "better_or_equal (prob_sense (build_model (init\<lparr>manufacturing_capacity := cap\<rparr>)))
     (expr_value best_plan (objective (build_model (init\<lparr>manufacturing_capacity := cap\<rparr>))))
     (expr_value b (objective (build_model (init\<lparr>manufacturing_capacity := cap\<rparr>))))"
    by (simp add: better_or_equal_def objective_init)
qed

lemma optimal_init: "is_optimal (build_model init) best_plan"
  using optimal_best_plan [of init_capacity] by (simp add: init_def init_capacity_def)

lemma optimal_more_budget:
  "is_optimal (build_model (with_capacity Budget 150001 init)) best_plan"
  using optimal_best_plan [of "set_capacity Budget 150001 init_capacity"]
  by (simp add: with_capacity_init init_capacity_def)

lemma optimal_more_design_hours:
  "is_optimal (build_model (with_capacity Design_hours 410 init)) more_shelves_plan"
  unfolding is_optimal_def with_capacity_init
proof (intro conjI allI impI)
  let ?m = "build_model (init\<lparr>manufacturing_capacity := set_capacity Design_hours 410 init_capacity\<rparr>)"
  show "feasible ?m more_shelves_plan"
    by (simp add: feasible_init_capacity init_capacity_def)
  fix b assume "feasible ?m b"
  then have "expr_value b (objective (build_model init)) \<le> 16500"
    unfolding feasible_init_capacity objective_init by (simp add: init_capacity_def)
  then show "better_or_equal (prob_sense ?m)
     (expr_value more_shelves_plan (objective ?m)) (expr_value b (objective ?m))"
    by (simp add: better_or_equal_def objective_init)
qed

lemma reports_exact_output: "reports st a m (exact_output st a)"
  by (simp add: reports_def exact_output_def list_all_iff)

text \<open>Models built from different capacities differ, so a table of problems tells them
  apart.\<close>

lemma more_design_hours_differs:
  "build_model (with_capacity Design_hours 410 init) \<noteq> build_model init"
proof
  assume "build_model (with_capacity Design_hours 410 init) = build_model init"
  then have "constraints (build_model (with_capacity Design_hours 410 init)) ! 1
           = constraints (build_model init) ! 1"
    by simp
  then show False
    by (simp add: build_model_def design_hours_constraint_def with_capacity_def init_def
        init_capacity_def lp_const_def)
qed

lemma more_budget_differs:
  "build_model (with_capacity Budget 150001 init) \<noteq> build_model init"
proof
  assume "build_model (with_capacity Budget 150001 init) = build_model init"
  then have "constraints (build_model (with_capacity Budget 150001 init)) ! 2
           = constraints (build_model init) ! 2"
    by simp
  then show False
    by (simp add: build_model_def budget_constraint_def with_capacity_def init_def
        init_capacity_def lp_const_def)
qed

lemma two_runs_solver_init:
  "two_runs_solver (build_model init) = exact_output LpStatusOptimal best_plan"
  by (simp add: two_runs_solver_def solver_from_table_def)

lemma two_runs_solver_more:
  "two_runs_solver (build_model (with_capacity Design_hours 410 init))
     = exact_output LpStatusOptimal more_shelves_plan"
  using more_design_hours_differs by (simp add: two_runs_solver_def solver_from_table_def)

lemma drifting_solver_init:
  "drifting_solver (build_model init) = exact_output LpStatusOptimal best_plan"
  by (simp add: drifting_solver_def solver_from_table_def)

lemma drifting_solver_more:
  "drifting_solver (build_model (with_capacity Budget 150001 init)) = near_integer_output"
  using more_budget_differs by (simp add: drifting_solver_def solver_from_table_def)

lemmas exact_run_defs =
  prepare_results_def exact_output_def LpStatus_def
  product_vars_def init_def init_products_def init_new_product_def build_model_def
  build_objective_def lp_value_def lp_add_def lp_term_def lp_const_def with_capacity_def
  py_trunc_def float_mul_def int_to_float_def to_double_dyadic

lemma run_init:
  "optimize_business_strategy two_runs_solver init =
     Inr \<lparr>status = ''Optimal'', total_profit = Some (Finite 16250),
          production_plan = [(''dining_table'', 0), (''bookshelf'', 30), (''office_chair'', 0)],
          new_product_approved = True, new_product_units = 50\<rparr>"
  unfolding optimize_business_strategy_def two_runs_solver_init
  by (simp add: exact_run_defs)

lemma run_more_design_hours:
  "optimize_business_strategy two_runs_solver (with_capacity Design_hours 410 init) =
     Inr \<lparr>status = ''Optimal'', total_profit = Some (Finite 16500),
          production_plan = [(''dining_table'', 0), (''bookshelf'', 31), (''office_chair'', 0)],
          new_product_approved = True, new_product_units = 50\<rparr>"
  unfolding optimize_business_strategy_def two_runs_solver_more
  by (simp add: exact_run_defs)

lemma run_drifting_init:
  "optimize_business_strategy drifting_solver init =
     Inr \<lparr>status = ''Optimal'', total_profit = Some (Finite 16250),
          production_plan = [(''dining_table'', 0), (''bookshelf'', 30), (''office_chair'', 0)],
          new_product_approved = True, new_product_units = 50\<rparr>"
  unfolding optimize_business_strategy_def drifting_solver_init
  by (simp add: exact_run_defs)

lemma run_drifting_more_budget:
  "optimize_business_strategy drifting_solver (with_capacity Budget 150001 init) =
     Inr \<lparr>status = ''Optimal'', total_profit = Some (Finite (17039359475 / 1048576)),
          production_plan = [(''dining_table'', 0), (''bookshelf'', 29), (''office_chair'', 0)],
          new_product_approved = True, new_product_units = 49\<rparr>"
  unfolding optimize_business_strategy_def drifting_solver_more
  by (simp add: exact_run_defs near_integer_output_def)

lemma exactly_summed_init:
  "exactly_summed best_plan (objective (build_model init))"
  "exactly_summed more_shelves_plan (objective (build_model init))"
  by (simp_all add: exactly_summed_def build_model_def build_objective_def init_def
      init_products_def init_new_product_def lp_term_def lp_add_def lp_const_def)

text \<open>Raising the design hours from 400 to 410 raises the optimal objective value
  from 16250 to 16500, and the reported total profit with it.\<close>

theorem optimum_monotone_in_capacity_witness:
  "get_capacity Design_hours (manufacturing_capacity init) \<le> 410
   \<and> is_optimal (build_model init) best_plan
   \<and> is_optimal (build_model (with_capacity Design_hours 410 init)) more_shelves_plan
   \<and> expr_value best_plan (objective (build_model init)) = 16250
   \<and> expr_value more_shelves_plan (objective (build_model (with_capacity Design_hours 410 init)))
       = 16500
   \<and> reports LpStatusOptimal best_plan (build_model init) (two_runs_solver (build_model init))
   \<and> exactly_summed best_plan (objective (build_model init))
   \<and> optimize_business_strategy two_runs_solver init =
     Inr \<lparr>status = ''Optimal'', total_profit = Some (Finite 16250),
          production_plan = [(''dining_table'', 0), (''bookshelf'', 30), (''office_chair'', 0)],
          new_product_approved = True, new_product_units = 50\<rparr>
   \<and> optimize_business_strategy two_runs_solver (with_capacity Design_hours 410 init) =
     Inr \<lparr>status = ''Optimal'', total_profit = Some (Finite 16500),
          production_plan = [(''dining_table'', 0), (''bookshelf'', 31), (''office_chair'', 0)],
          new_product_approved = True, new_product_units = 50\<rparr>"
proof -
  have cap: "get_capacity Design_hours (manufacturing_capacity init) \<le> 410"
    by (simp add: init_def init_capacity_def)
  have rep: "reports LpStatusOptimal best_plan (build_model init)
               (two_runs_solver (build_model init))"
    unfolding two_runs_solver_init by (rule reports_exact_output)
  have worth: "expr_value best_plan (objective (build_model init)) = 16250"
    "expr_value more_shelves_plan (objective (build_model (with_capacity Design_hours 410 init)))
       = 16500"
    by (simp_all add: with_capacity_init objective_init)
  from optimum_monotone_in_capacity
         [OF cap optimal_init optimal_more_design_hours, of two_runs_solver]
    cap optimal_init optimal_more_design_hours worth rep exactly_summed_init(1)
    run_init run_more_design_hours
  show ?thesis by simp
qed

text \<open>
  C8 as stated fails. For the default parameters the solver returns the optimal plan
  exactly and the total profit is 16250. With the budget raised from 150000 to 150001
  the same plan is still optimal; the solver returns it as \<open>30 - 2^-20\<close> bookshelves
  and \<open>50 - 2^-20\<close> units, and the total profit falls below 16250.
\<close>

theorem profit_drop_counterexample:
  "get_capacity Budget (manufacturing_capacity init) = 150000
   \<and> is_optimal (build_model init) best_plan
   \<and> is_optimal (build_model (with_capacity Budget 150001 init)) best_plan
   \<and> optimize_business_strategy drifting_solver init =
     Inr \<lparr>status = ''Optimal'', total_profit = Some (Finite 16250),
          production_plan = [(''dining_table'', 0), (''bookshelf'', 30), (''office_chair'', 0)],
          new_product_approved = True, new_product_units = 50\<rparr>
   \<and> optimize_business_strategy drifting_solver (with_capacity Budget 150001 init) =
     Inr \<lparr>status = ''Optimal'', total_profit = Some (Finite (17039359475 / 1048576)),
          production_plan = [(''dining_table'', 0), (''bookshelf'', 29), (''office_chair'', 0)],
          new_product_approved = True, new_product_units = 49\<rparr>
   \<and> (17039359475 / 1048576 :: rat) < 16250"
  using optimal_init optimal_more_budget run_drifting_init run_drifting_more_budget
  by (simp add: init_def init_capacity_def)

subsection \<open>No budget\<close>

lemma feasible_zero_budget:
  "feasible (build_model zero_budget) a \<longleftrightarrow>
     a (Produce ''dining_table'') = 0 \<and> a (Produce ''bookshelf'') = 0
     \<and> a (Produce ''office_chair'') = 0 \<and> a Design_New_Product = 0
     \<and> a New_Product_Units = 0"
  unfolding zero_budget_def with_capacity_init feasible_init_capacity
  by (simp add: init_capacity_def) linarith

lemma optimal_zero_budget: "is_optimal (build_model zero_budget) zero_plan"
  unfolding is_optimal_def
proof (intro conjI allI impI)
  show "feasible (build_model zero_budget) zero_plan" by (simp add: feasible_zero_budget)
next
  fix b assume "feasible (build_model zero_budget) b"
  then have "b (Produce ''dining_table'') = 0" "b (Produce ''bookshelf'') = 0"
    "b (Produce ''office_chair'') = 0" "b Design_New_Product = 0" "b New_Product_Units = 0"
    by (simp_all add: feasible_zero_budget)
  then have "expr_value b (objective (build_model zero_budget)) = 0"
    by (simp add: zero_budget_def with_capacity_init objective_init)
  then show "better_or_equal (prob_sense (build_model zero_budget))
     (expr_value zero_plan (objective (build_model zero_budget)))
     (expr_value b (objective (build_model zero_budget)))"
    by (simp add: better_or_equal_def zero_budget_def with_capacity_init objective_init)
qed

lemma prepare_results_zero_budget:
  assumes "prob_status out = LpStatusOptimal"
    and "varValue out (Produce ''dining_table'') = Some (Finite 0)"
    and "varValue out (Produce ''bookshelf'') = Some (Finite 0)"
    and "varValue out (Produce ''office_chair'') = Some (Finite 0)"
    and "varValue out Design_New_Product = Some (Finite 0)"
    and "varValue out New_Product_Units = Some (Finite 0)"
  shows "prepare_results zero_budget out =
           Inr \<lparr>status = ''Optimal'', total_profit = Some (Finite 0),
                production_plan = [(''dining_table'', 0), (''bookshelf'', 0), (''office_chair'', 0)],
                new_product_approved = False, new_product_units = 0\<rparr>"
  using assms
  by (simp add: exact_run_defs zero_budget_def)

text \<open>
  C9. With the default parameters and the budget 0, producing nothing is optimal, so the
  problem is not infeasible; and with a solver under the MILP contract the run returns
  status Optimal, the quantity 0 for every product, no approval, 0 units of the new
  product and the total profit 0.
\<close>

theorem zero_budget_run:
  assumes "milp_contract (build_model zero_budget) (solve (build_model zero_budget))"
  shows "is_optimal (build_model zero_budget) zero_plan
       \<and> optimize_business_strategy solve zero_budget =
           Inr \<lparr>status = ''Optimal'', total_profit = Some (Finite 0),
                production_plan = [(''dining_table'', 0), (''bookshelf'', 0), (''office_chair'', 0)],
                new_product_approved = False, new_product_units = 0\<rparr>"
proof -
  let ?out = "solve (build_model zero_budget)"
  from assms optimal_zero_budget have "returns_optimum (build_model zero_budget) ?out"
    unfolding milp_contract_def by blast
  then obtain a where a: "is_optimal (build_model zero_budget) a"
    and rep: "reports LpStatusOptimal a (build_model zero_budget) ?out"
    by (auto simp: returns_optimum_def)
  from a have zero: "a (Produce ''dining_table'') = 0" "a (Produce ''bookshelf'') = 0"
    "a (Produce ''office_chair'') = 0" "a Design_New_Product = 0" "a New_Product_Units = 0"
    by (simp_all add: is_optimal_def feasible_zero_budget)
  have names: "fst ` set (products zero_budget) = {''dining_table'', ''bookshelf'', ''office_chair''}"
    by (simp add: zero_budget_def init_def init_products_def)
  from rep have vals: "prob_status ?out = LpStatusOptimal"
    "varValue ?out (Produce ''dining_table'') = Some (Finite 0)"
    "varValue ?out (Produce ''bookshelf'') = Some (Finite 0)"
    "varValue ?out (Produce ''office_chair'') = Some (Finite 0)"
    "varValue ?out Design_New_Product = Some (Finite 0)"
    "varValue ?out New_Product_Units = Some (Finite 0)"
    using zero by (simp_all add: reports_build_model names)
  from prepare_results_zero_budget [OF vals] optimal_zero_budget show ?thesis
    by (simp add: optimize_business_strategy_def)
qed

text \<open>The solver that hands back the all-zero assignment meets the contract.\<close>

theorem zero_budget_run_witness:
  "milp_contract (build_model zero_budget)
     (const_solver (exact_output LpStatusOptimal zero_plan) (build_model zero_budget))
   \<and> optimize_business_strategy (const_solver (exact_output LpStatusOptimal zero_plan))
       zero_budget =
           Inr \<lparr>status = ''Optimal'', total_profit = Some (Finite 0),
                production_plan = [(''dining_table'', 0), (''bookshelf'', 0), (''office_chair'', 0)],
                new_product_approved = False, new_product_units = 0\<rparr>"
proof -
  have c: "milp_contract (build_model zero_budget)
     (const_solver (exact_output LpStatusOptimal zero_plan) (build_model zero_budget))"
    unfolding milp_contract_def returns_optimum_def const_solver_def
    using optimal_zero_budget reports_exact_output by blast
  from zero_budget_run [of "const_solver (exact_output LpStatusOptimal zero_plan)"] c
  show ?thesis by simp
qed


end
